theory Spec2Isabelle
  imports Complex_Main "HOL-Library.Sublist"
begin

section \<open>JavaScript numbers\<close>

text \<open>
  The grid services compute with JavaScript numbers. They are modelled as exact
  rationals together with the three non-finite values that division and subtraction
  can produce. Rounding of doubles and the sign of zero are not modelled: every
  finite result is the exact one, and \<open>-0\<close> is identified with \<open>0\<close>.
\<close>

datatype jsnum = Fin rat | PosInf | NegInf | NaN

fun js_neg :: "jsnum \<Rightarrow> jsnum" where
  "js_neg (Fin a) = Fin (- a)"
| "js_neg PosInf = NegInf"
| "js_neg NegInf = PosInf"
| "js_neg NaN = NaN"

fun js_add :: "jsnum \<Rightarrow> jsnum \<Rightarrow> jsnum" where
  "js_add (Fin a) (Fin b) = Fin (a + b)"
| "js_add NaN _ = NaN"
| "js_add _ NaN = NaN"
| "js_add PosInf NegInf = NaN"
| "js_add NegInf PosInf = NaN"
| "js_add PosInf _ = PosInf"
| "js_add NegInf _ = NegInf"
| "js_add _ PosInf = PosInf"
| "js_add _ NegInf = NegInf"

definition js_sub :: "jsnum \<Rightarrow> jsnum \<Rightarrow> jsnum" where
  "js_sub a b = js_add a (js_neg b)"

text \<open>The sign of a number as the product and the quotient use it: 1, 0 or -1.\<close>

fun js_sign :: "jsnum \<Rightarrow> int" where
  "js_sign (Fin a) = (if a > 0 then 1 else if a < 0 then -1 else 0)"
| "js_sign PosInf = 1"
| "js_sign NegInf = -1"
| "js_sign NaN = 0"

definition signed_inf :: "int \<Rightarrow> jsnum" where
  "signed_inf s = (if s > 0 then PosInf else if s < 0 then NegInf else NaN)"

fun js_mul :: "jsnum \<Rightarrow> jsnum \<Rightarrow> jsnum" where
  "js_mul (Fin a) (Fin b) = Fin (a * b)"
| "js_mul NaN _ = NaN"
| "js_mul _ NaN = NaN"
| "js_mul a b = signed_inf (js_sign a * js_sign b)"

text \<open>
  Division: a finite dividend over zero is an infinity of the dividend's sign
  (zero over zero is NaN), a finite dividend over an infinity is zero, and an
  infinity over an infinity is NaN.
\<close>

fun js_div :: "jsnum \<Rightarrow> jsnum \<Rightarrow> jsnum" where
  "js_div (Fin a) (Fin b) = (if b = 0 then signed_inf (js_sign (Fin a)) else Fin (a / b))"
| "js_div NaN _ = NaN"
| "js_div _ NaN = NaN"
| "js_div (Fin a) _ = Fin 0"
| "js_div a (Fin b) = signed_inf (js_sign a * (if b < 0 then -1 else 1))"
| "js_div _ _ = NaN"

fun js_floor :: "jsnum \<Rightarrow> jsnum" where
  "js_floor (Fin a) = Fin (of_int \<lfloor>a\<rfloor>)"
| "js_floor x = x"

fun js_ceil :: "jsnum \<Rightarrow> jsnum" where
  "js_ceil (Fin a) = Fin (of_int \<lceil>a\<rceil>)"
| "js_ceil x = x"

text \<open>Comparisons are false as soon as one side is NaN.\<close>

fun js_lt :: "jsnum \<Rightarrow> jsnum \<Rightarrow> bool" where
  "js_lt (Fin a) (Fin b) = (a < b)"
| "js_lt NaN _ = False"
| "js_lt _ NaN = False"
| "js_lt _ NegInf = False"
| "js_lt PosInf _ = False"
| "js_lt _ _ = True"

definition js_gt :: "jsnum \<Rightarrow> jsnum \<Rightarrow> bool" where
  "js_gt a b = js_lt b a"

definition js_le :: "jsnum \<Rightarrow> jsnum \<Rightarrow> bool" where
  "js_le a b = (a \<noteq> NaN \<and> b \<noteq> NaN \<and> \<not> js_lt b a)"

definition js_ge :: "jsnum \<Rightarrow> jsnum \<Rightarrow> bool" where
  "js_ge a b = js_le b a"

text \<open>\<open>Math.max\<close> and \<open>Math.min\<close> of two numbers: NaN if either is NaN.\<close>

definition js_max :: "jsnum \<Rightarrow> jsnum \<Rightarrow> jsnum" where
  "js_max a b = (if a = NaN \<or> b = NaN then NaN else if js_lt a b then b else a)"

definition js_min :: "jsnum \<Rightarrow> jsnum \<Rightarrow> jsnum" where
  "js_min a b = (if a = NaN \<or> b = NaN then NaN else if js_lt b a then b else a)"


section \<open>JavaScript values\<close>

text \<open>
  Records, cell values, filter values and row identifiers are untyped JavaScript
  values. Strings are lists of 8-bit characters. Objects are association lists read
  by their first matching key; prototype properties are not modelled. Two object
  values are the same object when they are equal as data, which only matters for
  identifiers that are objects (the row type declares them \<open>string | number\<close>).
\<close>

datatype jsval =
    JUndefined
  | JNull
  | JBool bool
  | JNum jsnum
  | JStr string
  | JDate jsnum
  | JArr "jsval list"
  | JObj "(string \<times> jsval) list"

text \<open>
  What the services can raise: the \<open>TypeError\<close> of a property read on \<open>null\<close> or
  \<open>undefined\<close>, the \<open>SyntaxError\<close> of \<open>JSON.parse\<close>, the error of Angular's runtime
  on a signal write inside a \<open>computed\<close> (NG0600), and whatever a caller's callback
  throws.
\<close>

datatype error = TypeError | SyntaxError | SignalWriteInComputed | Thrown jsval

text \<open>\<open>v == null\<close>: true of \<open>null\<close> and \<open>undefined\<close> only.\<close>

definition nullish :: "jsval \<Rightarrow> bool" where
  "nullish v = (v = JNull \<or> v = JUndefined)"

text \<open>\<open>a ?? b\<close>.\<close>

definition nullish_coalesce :: "jsval \<Rightarrow> jsval \<Rightarrow> jsval" where
  "nullish_coalesce a b = (if nullish a then b else a)"

text \<open>\<open>a === b\<close>: NaN differs from itself.\<close>

definition strict_equals :: "jsval \<Rightarrow> jsval \<Rightarrow> bool" where
  "strict_equals a b = (a = b \<and> a \<noteq> JNum NaN)"

text \<open>\<open>typeof v === 'object' && v !== null\<close>.\<close>

fun is_object :: "jsval \<Rightarrow> bool" where
  "is_object (JObj _) = True"
| "is_object (JArr _) = True"
| "is_object (JDate _) = True"
| "is_object _ = False"

subsection \<open>Strings\<close>

function nat_to_string :: "nat \<Rightarrow> string" where
  "nat_to_string n =
     (if n < 10 then [''0123456789'' ! n]
      else nat_to_string (n div 10) @ [''0123456789'' ! (n mod 10)])"
  by pat_completeness auto
termination
  by (relation "measure id") auto

definition int_to_string :: "int \<Rightarrow> string" where
  "int_to_string i = (if i < 0 then CHR ''-'' # nat_to_string (nat (- i)) else nat_to_string (nat i))"

text \<open>Lower case of an ASCII character, and whether a string is ASCII throughout.\<close>

definition lower_char :: "char \<Rightarrow> char" where
  "lower_char c =
     (let n = (of_char c :: nat) in if 65 \<le> n \<and> n \<le> 90 then char_of (n + 32) else c)"

definition ascii_only :: "string \<Rightarrow> bool" where
  "ascii_only s = list_all (\<lambda>c. (of_char c :: nat) < 128) s"

text \<open>\<open>s.includes(f)\<close>, \<open>s.startsWith(f)\<close>, \<open>s.endsWith(f)\<close>.\<close>

fun str_includes :: "string \<Rightarrow> string \<Rightarrow> bool" where
  "str_includes [] f = (f = [])"
| "str_includes (c # cs) f = (prefix f (c # cs) \<or> str_includes cs f)"

definition str_startsWith :: "string \<Rightarrow> string \<Rightarrow> bool" where
  "str_startsWith s f = prefix f s"

definition str_endsWith :: "string \<Rightarrow> string \<Rightarrow> bool" where
  "str_endsWith s f = prefix (rev f) (rev s)"

subsection \<open>The platform\<close>

text \<open>
  Functions of the JavaScript platform that the services call and that are not part of
  the repository. They are parameters of the model; every theorem holds for every
  platform.
  \<^item> \<open>localeCompare a b\<close>: the collation order of the host locale;
  \<^item> \<open>stringToNumber s\<close>: \<open>Number(s)\<close> of a string;
  \<^item> \<open>numberToString q\<close>: \<open>String(q)\<close> of a number that is not an integer of
    absolute value at most \<open>2^53\<close>;
  \<^item> \<open>lowerCaseUnicode s\<close>: \<open>s.toLowerCase()\<close> of a string with characters beyond ASCII;
  \<^item> \<open>dateToString t\<close>: \<open>String(d)\<close> of a date with time value \<open>t\<close>;
  \<^item> \<open>regexTest pattern caseSensitive s\<close>: \<open>new RegExp(pattern, flags).test(s)\<close>,
    an error when the construction throws;
  \<^item> \<open>storageGet key\<close>: \<open>localStorage.getItem(key)\<close>.
\<close>

record platform =
  localeCompare :: "string \<Rightarrow> string \<Rightarrow> jsnum"
  stringToNumber :: "string \<Rightarrow> jsnum"
  numberToString :: "rat \<Rightarrow> string"
  lowerCaseUnicode :: "string \<Rightarrow> string"
  dateToString :: "jsnum \<Rightarrow> string"
  regexTest :: "jsval \<Rightarrow> bool \<Rightarrow> string \<Rightarrow> error + bool"
  storageGet :: "string \<Rightarrow> string option"

subsection \<open>Coercions\<close>

text \<open>
  \<open>s.toLowerCase()\<close>: on an ASCII string the letters A to Z are folded; any other
  string is left to the platform.
\<close>

definition toLowerCase :: "platform \<Rightarrow> string \<Rightarrow> string" where
  "toLowerCase env s = (if ascii_only s then map lower_char s else lowerCaseUnicode env s)"

text \<open>
  \<open>String(n)\<close> of a number. The integers up to \<open>2^53\<close> are doubles and print with
  their exact digits; every other finite number is left to the platform.
\<close>

definition num_to_string :: "platform \<Rightarrow> jsnum \<Rightarrow> string" where
  "num_to_string env n =
     (case n of
        NaN \<Rightarrow> ''NaN''
      | PosInf \<Rightarrow> ''Infinity''
      | NegInf \<Rightarrow> ''-Infinity''
      | Fin q \<Rightarrow>
          (if q = of_int \<lfloor>q\<rfloor> \<and> \<bar>q\<bar> \<le> 2 ^ 53 then int_to_string \<lfloor>q\<rfloor>
           else numberToString env q))"

text \<open>Joining with a separator, as \<open>Array.prototype.join\<close> does.\<close>

fun join_strings :: "string \<Rightarrow> string list \<Rightarrow> string" where
  "join_strings sep [] = []"
| "join_strings sep [x] = x"
| "join_strings sep (x # y # ys) = x @ sep @ join_strings sep (y # ys)"

text \<open>
  \<open>String(v)\<close>. An array is the comma-joined strings of its elements, with \<open>null\<close> and
  \<open>undefined\<close> elements empty; a plain object is \<open>[object Object]\<close>.
\<close>

fun js_String :: "platform \<Rightarrow> jsval \<Rightarrow> string" where
  "js_String env JUndefined = ''undefined''"
| "js_String env JNull = ''null''"
| "js_String env (JBool b) = (if b then ''true'' else ''false'')"
| "js_String env (JNum n) = num_to_string env n"
| "js_String env (JStr s) = s"
| "js_String env (JDate t) = dateToString env t"
| "js_String env (JArr xs) =
     join_strings '','' (map (\<lambda>x. if x = JNull \<or> x = JUndefined then [] else js_String env x) xs)"
| "js_String env (JObj kvs) = ''[object Object]''"

text \<open>\<open>Number(v)\<close>.\<close>

fun js_Number :: "platform \<Rightarrow> jsval \<Rightarrow> jsnum" where
  "js_Number env JUndefined = NaN"
| "js_Number env JNull = Fin 0"
| "js_Number env (JBool b) = (if b then Fin 1 else Fin 0)"
| "js_Number env (JNum n) = n"
| "js_Number env (JStr s) = stringToNumber env s"
| "js_Number env (JDate t) = t"
| "js_Number env (JArr xs) = stringToNumber env (js_String env (JArr xs))"
| "js_Number env (JObj kvs) = NaN"

text \<open>
  The property read \<open>v[key]\<close>. It throws on \<open>null\<close> and \<open>undefined\<close>. An array and a
  string answer \<open>length\<close> and their decimal indices; numbers, booleans and dates have
  no own property.
\<close>

definition index_of_key :: "string \<Rightarrow> nat \<Rightarrow> nat option" where
  "index_of_key key len = List.find (\<lambda>i. nat_to_string i = key) [0..<len]"

fun own_property :: "jsval \<Rightarrow> string \<Rightarrow> jsval" where
  "own_property (JObj kvs) key = (case map_of kvs key of Some v \<Rightarrow> v | None \<Rightarrow> JUndefined)"
| "own_property (JArr xs) key =
     (if key = ''length'' then JNum (Fin (of_nat (length xs)))
      else case index_of_key key (length xs) of Some i \<Rightarrow> xs ! i | None \<Rightarrow> JUndefined)"
| "own_property (JStr s) key =
     (if key = ''length'' then JNum (Fin (of_nat (length s)))
      else case index_of_key key (length s) of Some i \<Rightarrow> JStr [s ! i] | None \<Rightarrow> JUndefined)"
| "own_property _ key = JUndefined"

definition get_property :: "jsval \<Rightarrow> string \<Rightarrow> error + jsval" where
  "get_property v key = (if nullish v then Inl TypeError else Inr (own_property v key))"

subsection \<open>Array helpers\<close>

text \<open>
  \<open>every\<close>, \<open>some\<close> and \<open>filter\<close> with a callback that may throw: the elements are
  visited in order, \<open>every\<close> and \<open>some\<close> stop at the first deciding element, and an
  exception ends the call.
\<close>

fun every_err :: "('a \<Rightarrow> error + bool) \<Rightarrow> 'a list \<Rightarrow> error + bool" where
  "every_err p [] = Inr True"
| "every_err p (x # xs) =
     (case p x of Inl e \<Rightarrow> Inl e | Inr b \<Rightarrow> if b then every_err p xs else Inr False)"


fun filter_err :: "('a \<Rightarrow> error + bool) \<Rightarrow> 'a list \<Rightarrow> error + 'a list" where
  "filter_err p [] = Inr []"
| "filter_err p (x # xs) =
     (case p x of
        Inl e \<Rightarrow> Inl e
      | Inr b \<Rightarrow>
          (case filter_err p xs of
             Inl e \<Rightarrow> Inl e
           | Inr ys \<Rightarrow> Inr (if b then x # ys else ys)))"

text \<open>\<open>findIndex\<close>: the first position that satisfies the predicate, \<open>None\<close> for -1.\<close>

fun findIndex :: "('a \<Rightarrow> bool) \<Rightarrow> 'a list \<Rightarrow> nat option" where
  "findIndex p [] = None"
| "findIndex p (x # xs) = (if p x then Some 0 else map_option Suc (findIndex p xs))"

text \<open>
  \<open>Array.prototype.sort\<close> with a comparator is stable. It is modelled as the stable
  insertion sort: an element moves behind those it compares greater than, and a NaN
  result counts as zero. Every engine produces this order when the comparator is a
  consistent ordering that does not throw; otherwise the order is left to the engine.
\<close>

fun insert_sorted :: "('a \<Rightarrow> 'a \<Rightarrow> error + jsnum) \<Rightarrow> 'a \<Rightarrow> 'a list \<Rightarrow> error + 'a list" where
  "insert_sorted cmp x [] = Inr [x]"
| "insert_sorted cmp x (y # ys) =
     (case cmp x y of
        Inl e \<Rightarrow> Inl e
      | Inr c \<Rightarrow>
          if js_gt c (Fin 0)
          then (case insert_sorted cmp x ys of Inl e \<Rightarrow> Inl e | Inr zs \<Rightarrow> Inr (y # zs))
          else Inr (x # y # ys))"

fun js_sort :: "('a \<Rightarrow> 'a \<Rightarrow> error + jsnum) \<Rightarrow> 'a list \<Rightarrow> error + 'a list" where
  "js_sort cmp [] = Inr []"
| "js_sort cmp (x # xs) =
     (case js_sort cmp xs of Inl e \<Rightarrow> Inl e | Inr ys \<Rightarrow> insert_sorted cmp x ys)"

text \<open>
  \<open>xs.slice(start, end)\<close>: each bound is truncated to an integer (NaN is 0), a negative
  bound counts from the end, and both are clamped to the array.
\<close>

definition truncate_rat :: "rat \<Rightarrow> int" where
  "truncate_rat q = (if q < 0 then \<lceil>q\<rceil> else \<lfloor>q\<rfloor>)"

definition slice_bound :: "nat \<Rightarrow> jsnum \<Rightarrow> nat" where
  "slice_bound len b =
     (case b of
        NaN \<Rightarrow> 0
      | NegInf \<Rightarrow> 0
      | PosInf \<Rightarrow> len
      | Fin q \<Rightarrow>
          (let i = truncate_rat q
           in if i < 0 then nat (max (int len + i) 0) else min (nat i) len))"

definition js_slice :: "'a list \<Rightarrow> jsnum \<Rightarrow> jsnum \<Rightarrow> 'a list" where
  "js_slice xs start stop =
     (let len = length xs; k = slice_bound len start; final = slice_bound len stop
      in take (final - k) (drop k xs))"

section \<open>Grid state engine\<close>

subsection \<open>Data model\<close>

datatype accessor = AccField string | AccFn "jsval \<Rightarrow> error + jsval"

datatype width = WidthNum jsnum | WidthStr string

record GridColumn =
  col_id :: string
  header :: string
  width :: "width option"
  accessor :: "accessor option"
  sortCompareFn :: "(jsval \<Rightarrow> jsval \<Rightarrow> error + jsnum) option"
  filterFn :: "(jsval \<Rightarrow> jsval \<Rightarrow> error + bool) option"
  hidden :: "bool option"

record GridRow =
  row_id :: jsval
  data :: jsval
  index :: nat
  selected :: bool
  expanded :: bool
  disabled :: bool

datatype direction = Asc | Desc

record GridSort =
  sort_columnId :: string
  direction :: direction

record GridFilter =
  filter_columnId :: string
  filter_value :: jsval
  operator :: "string option"

record GridPagination =
  currentPage :: jsnum
  pageSize :: jsnum
  pagination_totalItems :: jsnum
  totalPages :: jsnum
  pageSizeOptions :: "jsnum list"

datatype selection_mode = ModeSingle | ModeMultiple | ModeNone

record GridSelection =
  mode :: selection_mode
  selectedRows :: "GridRow list"
  selectedIds :: "jsval list"
  selectAll :: bool
  indeterminate :: bool

text \<open>An option that is absent is \<open>None\<close>.\<close>

record GridOptions =
  enableSorting :: "bool option"
  enableFiltering :: "bool option"
  enablePagination :: "bool option"
  enableSelection :: "bool option"
  multiSort :: "bool option"
  selectionMode :: "selection_mode option"
  opt_pageSize :: "jsnum option"
  opt_pageSizeOptions :: "jsnum list option"
  persistState :: "bool option"
  stateKey :: "string option"
  debounceMs :: "jsnum option"

text \<open>The signals of \<open>GridStateService\<close>.\<close>

record GridStateService =
  s_data :: "jsval list"
  s_columns :: "GridColumn list"
  s_sort :: "GridSort list"
  s_filters :: "GridFilter list"
  s_pagination :: GridPagination
  s_selection :: GridSelection
  s_loading :: bool
  s_error :: "string option"
  s_options :: GridOptions

text \<open>Truthiness of an optional flag, of a number and of an optional string.\<close>

definition flag_set :: "bool option \<Rightarrow> bool" where
  "flag_set f = (f = Some True)"

definition num_truthy :: "jsnum \<Rightarrow> bool" where
  "num_truthy n = (n \<noteq> Fin 0 \<and> n \<noteq> NaN)"

definition string_set :: "string option \<Rightarrow> bool" where
  "string_set k = (case k of None \<Rightarrow> False | Some t \<Rightarrow> t \<noteq> [])"

text \<open>The service as constructed.\<close>

definition empty_options :: GridOptions where
  "empty_options =
     \<lparr> enableSorting = None, enableFiltering = None, enablePagination = None,
       enableSelection = None, multiSort = None, selectionMode = None,
       opt_pageSize = None, opt_pageSizeOptions = None, persistState = None,
       stateKey = None, debounceMs = None \<rparr>"

definition new_service :: GridStateService where
  "new_service =
     \<lparr> s_data = [], s_columns = [], s_sort = [], s_filters = [],
       s_pagination = \<lparr> currentPage = Fin 1, pageSize = Fin 10,
         pagination_totalItems = Fin 0, totalPages = Fin 0,
         pageSizeOptions = [Fin 10, Fin 25, Fin 50, Fin 100] \<rparr>,
       s_selection = \<lparr> mode = ModeNone, selectedRows = [], selectedIds = [],
         selectAll = False, indeterminate = False \<rparr>,
       s_loading = False, s_error = None, s_options = empty_options \<rparr>"

subsection \<open>Signals\<close>

text \<open>
  The state of a service lives in Angular signals. Outside a \<open>computed\<close> a signal is
  plain state: \<open>set\<close> and \<open>update\<close> replace its value. While the body of a
  \<open>computed\<close> runs, the runtime refuses every signal write: \<open>set\<close> and \<open>update\<close>
  throw and the signal keeps its value.
\<close>

datatype reactive_context = InsideComputed | OutsideComputed

definition signal_update :: "reactive_context \<Rightarrow> ('s \<Rightarrow> 's) \<Rightarrow> 's \<Rightarrow> error + 's" where
  "signal_update ctx f s =
     (if ctx = InsideComputed then Inl SignalWriteInComputed else Inr (f s))"

subsection \<open>Rows\<close>

definition getRowId :: "jsval \<Rightarrow> nat \<Rightarrow> jsval" where
  "getRowId item i =
     (if is_object item
      then nullish_coalesce (own_property item ''id'')
             (nullish_coalesce (own_property item ''_id'')
                (nullish_coalesce (own_property item ''uuid'') (JNum (Fin (of_nat i)))))
      else JNum (Fin (of_nat i)))"

definition make_row :: "jsval list \<Rightarrow> jsval \<Rightarrow> nat \<Rightarrow> GridRow" where
  "make_row ids item i =
     \<lparr> row_id = getRowId item i, data = item, index = i,
       selected = (getRowId item i \<in> set ids), expanded = False, disabled = False \<rparr>"

definition rows :: "GridStateService \<Rightarrow> GridRow list" where
  "rows st =
     map (\<lambda>(item, i). make_row (selectedIds (s_selection st)) item i)
       (zip (s_data st) [0..<length (s_data st)])"

subsection \<open>Cell values, default filter and default comparison\<close>

definition getCellValue :: "jsval \<Rightarrow> GridColumn \<Rightarrow> error + jsval" where
  "getCellValue d column =
     (case accessor column of
        Some (AccFn f) \<Rightarrow> f d
      | Some (AccField k) \<Rightarrow>
          if k \<noteq> [] then get_property d k else get_property d (col_id column)
      | None \<Rightarrow> get_property d (col_id column))"

definition defaultFilter :: "platform \<Rightarrow> jsval \<Rightarrow> jsval \<Rightarrow> string \<Rightarrow> bool" where
  "defaultFilter env v filterValue opr =
     (if nullish v then False
      else
        let strValue = toLowerCase env (js_String env v);
            strFilter = toLowerCase env (js_String env filterValue)
        in if opr = ''equals'' then strValue = strFilter
           else if opr = ''contains'' then str_includes strValue strFilter
           else if opr = ''startsWith'' then str_startsWith strValue strFilter
           else if opr = ''endsWith'' then str_endsWith strValue strFilter
           else if opr = ''greaterThan'' then js_gt (js_Number env v) (js_Number env filterValue)
           else if opr = ''lessThan'' then js_lt (js_Number env v) (js_Number env filterValue)
           else str_includes strValue strFilter)"

definition defaultSort :: "platform \<Rightarrow> jsval \<Rightarrow> jsval \<Rightarrow> jsnum" where
  "defaultSort env a b =
     (if nullish a \<and> nullish b then Fin 0
      else if nullish a then Fin (- 1)
      else if nullish b then Fin 1
      else
        (case (a, b) of
           (JStr x, JStr y) \<Rightarrow> localeCompare env x y
         | (JNum x, JNum y) \<Rightarrow> js_sub x y
         | (JDate x, JDate y) \<Rightarrow> js_sub x y
         | _ \<Rightarrow> localeCompare env (js_String env a) (js_String env b)))"

subsection \<open>The pipeline: filter, sort, paginate\<close>

definition passes_filter :: "platform \<Rightarrow> GridColumn list \<Rightarrow> GridRow \<Rightarrow> GridFilter \<Rightarrow> error + bool" where
  "passes_filter env cols row f =
     (case List.find (\<lambda>c. col_id c = filter_columnId f) cols of
        None \<Rightarrow> Inr True
      | Some column \<Rightarrow>
          (case getCellValue (data row) column of
             Inl e \<Rightarrow> Inl e
           | Inr v \<Rightarrow>
               (case filterFn column of
                  Some fn \<Rightarrow> fn v (filter_value f)
                | None \<Rightarrow>
                    Inr (defaultFilter env v (filter_value f)
                          (case operator f of
                             None \<Rightarrow> ''contains''
                           | Some opr \<Rightarrow> if opr = [] then ''contains'' else opr)))))"

definition applyFilters :: "platform \<Rightarrow> GridStateService \<Rightarrow> GridRow list \<Rightarrow> error + GridRow list" where
  "applyFilters env st rs =
     (let filters = s_filters st; columns = s_columns st
      in if length filters = 0 then Inr rs
         else filter_err (\<lambda>row. every_err (passes_filter env columns row) filters) rs)"

fun compare_rows ::
  "platform \<Rightarrow> GridColumn list \<Rightarrow> GridSort list \<Rightarrow> GridRow \<Rightarrow> GridRow \<Rightarrow> error + jsnum" where
  "compare_rows env cols [] a b = Inr (Fin 0)"
| "compare_rows env cols (srt # sorts) a b =
     (case List.find (\<lambda>c. col_id c = sort_columnId srt) cols of
        None \<Rightarrow> compare_rows env cols sorts a b
      | Some column \<Rightarrow>
          (case getCellValue (data a) column of
             Inl e \<Rightarrow> Inl e
           | Inr aValue \<Rightarrow>
               (case getCellValue (data b) column of
                  Inl e \<Rightarrow> Inl e
                | Inr bValue \<Rightarrow>
                    (case (case sortCompareFn column of
                             Some fn \<Rightarrow> fn aValue bValue
                           | None \<Rightarrow> Inr (defaultSort env aValue bValue)) of
                       Inl e \<Rightarrow> Inl e
                     | Inr comparison \<Rightarrow>
                         if comparison \<noteq> Fin 0
                         then Inr (if direction srt = Asc then comparison else js_neg comparison)
                         else compare_rows env cols sorts a b))))"

definition applySorting :: "platform \<Rightarrow> GridStateService \<Rightarrow> GridRow list \<Rightarrow> error + GridRow list" where
  "applySorting env st rs =
     (let sorts = s_sort st; columns = s_columns st
      in if length sorts = 0 then Inr rs
         else js_sort (compare_rows env columns sorts) rs)"

text \<open>
  The page arithmetic is the exact one. It is the arithmetic of the code's doubles
  when the page number and the page size are integers, as counts are; for a page
  size with a fraction the doubles round and the model does not follow them.
\<close>

definition applyPagination :: "GridStateService \<Rightarrow> GridRow list \<Rightarrow> GridRow list" where
  "applyPagination st rs =
     (if \<not> flag_set (enablePagination (s_options st)) then rs
      else
        let pagination = s_pagination st;
            startIndex = js_mul (js_sub (currentPage pagination) (Fin 1)) (pageSize pagination);
            endIndex = js_add startIndex (pageSize pagination)
        in js_slice rs startIndex endIndex)"

text \<open>
  \<open>updatePaginationTotals\<close> updates the pagination signal with the function
  \<open>pagination_totals\<close>, in the reactive context of its caller.
\<close>

definition pagination_totals :: "nat \<Rightarrow> GridPagination \<Rightarrow> GridPagination" where
  "pagination_totals totalFilteredItems p =
     p\<lparr>pagination_totalItems := Fin (of_nat totalFilteredItems),
       totalPages := js_ceil (js_div (Fin (of_nat totalFilteredItems)) (pageSize p))\<rparr>"

definition updatePaginationTotals ::
  "reactive_context \<Rightarrow> nat \<Rightarrow> GridStateService \<Rightarrow> error + GridStateService" where
  "updatePaginationTotals ctx totalFilteredItems st =
     signal_update ctx
       (\<lambda>s. s\<lparr>s_pagination := pagination_totals totalFilteredItems (s_pagination s)\<rparr>) st"

text \<open>
  The rows after filtering and sorting, before the totals are written and the page is
  cut.
\<close>

definition filtered_sorted :: "platform \<Rightarrow> GridStateService \<Rightarrow> error + GridRow list" where
  "filtered_sorted env st =
     (case applyFilters env st (rows st) of
        Inl e \<Rightarrow> Inl e
      | Inr rs \<Rightarrow> applySorting env st rs)"

text \<open>
  \<open>processedRows\<close> is a \<open>computed\<close>: its body filters, sorts, calls
  \<open>updatePaginationTotals\<close> and cuts the page, all inside the computation. The result
  is the page together with the service after the write, or the exception that ended
  the body; after an exception the service is as it was.
\<close>

definition processedRows :: "platform \<Rightarrow> GridStateService \<Rightarrow> error + (GridRow list \<times> GridStateService)" where
  "processedRows env st =
     (case filtered_sorted env st of
        Inl e \<Rightarrow> Inl e
      | Inr rs \<Rightarrow>
          (case updatePaginationTotals InsideComputed (length rs) st of
             Inl e \<Rightarrow> Inl e
           | Inr st' \<Rightarrow> Inr (applyPagination st' rs, st')))"

subsection \<open>Persisted snapshots\<close>

text \<open>
  \<open>JSON.parse\<close> is a function of the platform and a parameter of \<open>importState\<close>. It
  either throws or returns a value; of that value the service reads the four keys
  \<open>sort\<close>, \<open>filters\<close>, \<open>pagination\<close> and \<open>selection\<close>. A key is \<open>None\<close> when it
  is missing or its value is falsy. The value \<open>null\<close> is kept apart, since reading a
  key of it throws. The model covers snapshots whose present keys have the shape that
  \<open>exportState\<close> writes.
\<close>

record snapshot =
  snap_sort :: "GridSort list option"
  snap_filters :: "GridFilter list option"
  snap_pagination :: "GridPagination option"
  snap_selection :: "GridSelection option"

datatype parsed = ParsedNull | Parsed snapshot

type_synonym json_parse = "string \<Rightarrow> error + parsed"

text \<open>
  The body of the \<open>try\<close> block: the service as it stands when the block ends, and the
  exception that ended it, if any. The \<open>catch\<close> block only logs.
\<close>

definition importState_try :: "json_parse \<Rightarrow> string \<Rightarrow> GridStateService \<Rightarrow> GridStateService \<times> error option" where
  "importState_try parse stateJson st =
     (case parse stateJson of
        Inl e \<Rightarrow> (st, Some e)
      | Inr ParsedNull \<Rightarrow> (st, Some TypeError)
      | Inr (Parsed state) \<Rightarrow>
          (let st1 = (case snap_sort state of Some v \<Rightarrow> st\<lparr>s_sort := v\<rparr> | None \<Rightarrow> st);
               st2 = (case snap_filters state of Some v \<Rightarrow> st1\<lparr>s_filters := v\<rparr> | None \<Rightarrow> st1);
               st3 = (case snap_pagination state of Some v \<Rightarrow> st2\<lparr>s_pagination := v\<rparr> | None \<Rightarrow> st2);
               st4 = (case snap_selection state of Some v \<Rightarrow> st3\<lparr>s_selection := v\<rparr> | None \<Rightarrow> st3)
           in (st4, None)))"

definition importState :: "json_parse \<Rightarrow> string \<Rightarrow> GridStateService \<Rightarrow> GridStateService" where
  "importState parse stateJson st = fst (importState_try parse stateJson st)"

subsection \<open>Operations\<close>

definition or_default :: "'a option \<Rightarrow> 'a \<Rightarrow> 'a option" where
  "or_default v d = (case v of None \<Rightarrow> Some d | Some x \<Rightarrow> Some x)"

text \<open>
  \<open>initialize\<close>. A stored string that is empty is not imported.
\<close>

definition initialize ::
  "platform \<Rightarrow> json_parse \<Rightarrow> jsval list \<Rightarrow> GridColumn list \<Rightarrow> GridOptions
     \<Rightarrow> GridStateService \<Rightarrow> GridStateService" where
  "initialize env parse d columns options st =
     (let st1 = st\<lparr>s_data := d, s_columns := columns,
                  s_options := options
                    \<lparr>enableSorting := or_default (enableSorting options) True,
                     enableFiltering := or_default (enableFiltering options) True,
                     enablePagination := or_default (enablePagination options) True,
                     enableSelection := or_default (enableSelection options) False,
                     multiSort := or_default (multiSort options) False,
                     selectionMode := or_default (selectionMode options) ModeNone,
                     opt_pageSize := or_default (opt_pageSize options) (Fin 10),
                     opt_pageSizeOptions :=
                       or_default (opt_pageSizeOptions options) [Fin 10, Fin 25, Fin 50, Fin 100],
                     debounceMs := or_default (debounceMs options) (Fin 300)\<rparr>\<rparr>;
          st2 = st1\<lparr>s_pagination := (s_pagination st1)
                  \<lparr>pageSize :=
                     (case opt_pageSize options of
                        Some n \<Rightarrow> if num_truthy n then n else Fin 10
                      | None \<Rightarrow> Fin 10),
                   pageSizeOptions :=
                     (case opt_pageSizeOptions options of
                        Some l \<Rightarrow> l
                      | None \<Rightarrow> [Fin 10, Fin 25, Fin 50, Fin 100])\<rparr>\<rparr>;
          st3 = st2\<lparr>s_selection := (s_selection st2)
                  \<lparr>mode := (case selectionMode options of Some m \<Rightarrow> m | None \<Rightarrow> ModeNone)\<rparr>\<rparr>
      in if flag_set (persistState options) \<and> string_set (stateKey options)
         then (case Option.bind (stateKey options) (storageGet env) of
                 None \<Rightarrow> st3
               | Some savedState \<Rightarrow>
                   if savedState \<noteq> [] then importState parse savedState st3 else st3)
         else st3)"

definition sortBy :: "string \<Rightarrow> direction option \<Rightarrow> GridStateService \<Rightarrow> GridStateService" where
  "sortBy columnId dir st =
     (let options = s_options st
      in if \<not> flag_set (enableSorting options) then st
         else
           let sorts = s_sort st;
               existingIndex = findIndex (\<lambda>x. sort_columnId x = columnId) sorts;
               currentDirection =
                 (case existingIndex of Some i \<Rightarrow> Some (direction (sorts ! i)) | None \<Rightarrow> None);
               newDirection =
                 (case dir of
                    Some d \<Rightarrow> d
                  | None \<Rightarrow> if currentDirection = Some Asc then Desc else Asc)
           in st\<lparr>s_sort :=
                (if flag_set (multiSort options)
                 then (case existingIndex of
                         Some i \<Rightarrow> sorts[i := (sorts ! i)\<lparr>direction := newDirection\<rparr>]
                       | None \<Rightarrow> sorts @ [\<lparr>sort_columnId = columnId, direction = newDirection\<rparr>])
                 else [\<lparr>sort_columnId = columnId, direction = newDirection\<rparr>])\<rparr>)"

definition clearSort :: "string option \<Rightarrow> GridStateService \<Rightarrow> GridStateService" where
  "clearSort columnId st =
     st\<lparr>s_sort :=
       (case columnId of
          Some c \<Rightarrow> if c \<noteq> [] then filter (\<lambda>x. sort_columnId x \<noteq> c) (s_sort st) else []
        | None \<Rightarrow> [])\<rparr>"

definition setFilter :: "string \<Rightarrow> jsval \<Rightarrow> string option \<Rightarrow> GridStateService \<Rightarrow> GridStateService" where
  "setFilter columnId v opr st =
     (if \<not> flag_set (enableFiltering (s_options st)) then st
      else
        let filters = s_filters st;
            existingIndex = findIndex (\<lambda>f. filter_columnId f = columnId) filters;
            newFilter = \<lparr> filter_columnId = columnId, filter_value = v,
                          operator = Some (case opr of None \<Rightarrow> ''contains'' | Some x \<Rightarrow> x) \<rparr>;
            filters' =
              (if v = JNull \<or> v = JUndefined \<or> v = JStr []
               then filter (\<lambda>f. filter_columnId f \<noteq> columnId) filters
               else (case existingIndex of
                       Some i \<Rightarrow> filters[i := newFilter]
                     | None \<Rightarrow> filters @ [newFilter]))
        in st\<lparr>s_filters := filters',
              s_pagination := (s_pagination st)\<lparr>currentPage := Fin 1\<rparr>\<rparr>)"

definition clearFilter :: "string option \<Rightarrow> GridStateService \<Rightarrow> GridStateService" where
  "clearFilter columnId st =
     st\<lparr>s_filters :=
       (case columnId of
          Some c \<Rightarrow> if c \<noteq> [] then filter (\<lambda>f. filter_columnId f \<noteq> c) (s_filters st) else []
        | None \<Rightarrow> [])\<rparr>"

definition setPage :: "jsnum \<Rightarrow> GridStateService \<Rightarrow> GridStateService" where
  "setPage page st =
     (if js_ge page (Fin 1) \<and> js_le page (totalPages (s_pagination st))
      then st\<lparr>s_pagination := (s_pagination st)\<lparr>currentPage := page\<rparr>\<rparr>
      else st)"


definition selectRow :: "jsval \<Rightarrow> bool \<Rightarrow> GridStateService \<Rightarrow> GridStateService" where
  "selectRow rowId sel st =
     (let selectionMode = mode (s_selection st)
      in if selectionMode = ModeNone then st
         else
           let selection = s_selection st;
               ids0 = selectedIds selection;
               rows0 = selectedRows selection;
               (ids, rws) =
                 (if sel
                  then (if selectionMode = ModeSingle
                        then ([rowId], filter (\<lambda>row. strict_equals (row_id row) rowId) (rows st))
                        else if rowId \<notin> set ids0
                        then (ids0 @ [rowId],
                              (case List.find (\<lambda>r. strict_equals (row_id r) rowId) (rows st) of
                                 Some row \<Rightarrow> rows0 @ [row]
                               | None \<Rightarrow> rows0))
                        else (ids0, rows0))
                  else (filter (\<lambda>i. \<not> strict_equals i rowId) ids0,
                        filter (\<lambda>row. \<not> strict_equals (row_id row) rowId) rows0));
               allRowIds = map row_id (rows st);
               all = (length allRowIds > 0 \<and> list_all (\<lambda>i. i \<in> set ids) allRowIds);
               indet = (length ids > 0 \<and> \<not> all)
           in st\<lparr>s_selection := selection
                 \<lparr>selectedIds := ids, selectedRows := rws,
                  selectAll := all, indeterminate := indet\<rparr>\<rparr>)"


definition toggleRowSelection :: "jsval \<Rightarrow> GridStateService \<Rightarrow> GridStateService" where
  "toggleRowSelection rowId st =
     (let isSelected = (rowId \<in> set (selectedIds (s_selection st)))
      in selectRow rowId (\<not> isSelected) st)"

definition clearSelection :: "GridStateService \<Rightarrow> GridStateService" where
  "clearSelection st =
     st\<lparr>s_selection := (s_selection st)
         \<lparr>selectedIds := [], selectedRows := [],
          selectAll := False, indeterminate := False\<rparr>\<rparr>"





subsection \<open>The scenario of the specification\<close>

definition plain_column :: "string \<Rightarrow> GridColumn" where
  "plain_column c =
     \<lparr> col_id = c, header = c, width = None, accessor = None,
       sortCompareFn = None, filterFn = None, hidden = None \<rparr>"

definition person :: "int \<Rightarrow> int \<Rightarrow> jsval" where
  "person i age = JObj [(''id'', JNum (Fin (of_int i))), (''age'', JNum (Fin (of_int age)))]"

definition scenario_data :: "jsval list" where
  "scenario_data = [person 1 30, person 2 25, person 3 25]"

text \<open>The service initialised with the three records, multi-column sorting allowed.\<close>

definition scenario_service :: "platform \<Rightarrow> json_parse \<Rightarrow> GridStateService" where
  "scenario_service env parse =
     initialize env parse scenario_data [plain_column ''id'', plain_column ''age'']
       (empty_options\<lparr>multiSort := Some True\<rparr>) new_service"

definition scenario_sorted :: "platform \<Rightarrow> json_parse \<Rightarrow> GridStateService" where
  "scenario_sorted env parse =
     sortBy ''id'' (Some Asc) (sortBy ''age'' (Some Asc) (scenario_service env parse))"

definition scenario_filtered :: "platform \<Rightarrow> json_parse \<Rightarrow> GridStateService" where
  "scenario_filtered env parse =
     setFilter ''age'' (JNum (Fin 25)) (Some ''greaterThan'') (scenario_service env parse)"

subsection \<open>Sample platform and sample states\<close>

text \<open>
  A platform for the concrete examples: it orders all strings as equal, reads no
  string as a number and folds no letter beyond ASCII; its \<open>JSON.parse\<close> knows the
  documents \<open>null\<close> and \<open>{}\<close>, and its storage is empty.
\<close>

definition sample_platform :: platform where
  "sample_platform =
     \<lparr> localeCompare = (\<lambda>a b. Fin 0), stringToNumber = (\<lambda>s. NaN),
       numberToString = (\<lambda>q. ''?''), lowerCaseUnicode = (\<lambda>s. s),
       dateToString = (\<lambda>t. ''?''),
       regexTest = (\<lambda>p c s. Inl SyntaxError), storageGet = (\<lambda>k. None) \<rparr>"

definition empty_snapshot :: snapshot where
  "empty_snapshot =
     \<lparr> snap_sort = None, snap_filters = None, snap_pagination = None, snap_selection = None \<rparr>"

definition sample_parse :: json_parse where
  "sample_parse s =
     (if s = ''null'' then Inr ParsedNull
      else if s = ''{}'' then Inr (Parsed empty_snapshot)
      else Inl SyntaxError)"

text \<open>Two records, the second with a \<open>null\<close> age, and a filter on the age.\<close>

definition ageless :: jsval where
  "ageless = JObj [(''id'', JNum (Fin 2)), (''age'', JNull)]"

definition ageless_service :: GridStateService where
  "ageless_service =
     setFilter ''age'' (JNum (Fin 25)) (Some ''lessThan'')
       (initialize sample_platform sample_parse [person 1 20, ageless]
          [plain_column ''id'', plain_column ''age''] empty_options new_service)"

subsection \<open>Pages\<close>


text \<open>The three records of the scenario with a page size of two.\<close>

definition paged_service :: GridStateService where
  "paged_service =
     initialize sample_platform sample_parse scenario_data
       [plain_column ''id'', plain_column ''age'']
       (empty_options\<lparr>opt_pageSize := Some (Fin 2)\<rparr>) new_service"


subsection \<open>Row identity as the specification words it\<close>

text \<open>
  Following the specification: the record fields \<open>id\<close>, \<open>_id\<close>, \<open>uuid\<close> are
  checked in this order and the first defined value is the identifier; \<open>None\<close> when
  the record has none of them, in which case the positional index is used.
\<close>

definition first_defined_id :: "jsval \<Rightarrow> jsval option" where
  "first_defined_id item =
     (if \<not> is_object item then None
      else if \<not> nullish (own_property item ''id'') then Some (own_property item ''id'')
      else if \<not> nullish (own_property item ''_id'') then Some (own_property item ''_id'')
      else if \<not> nullish (own_property item ''uuid'') then Some (own_property item ''uuid'')
      else None)"

text \<open>Two records with the same \<open>id\<close>.\<close>

definition twins_service :: GridStateService where
  "twins_service =
     initialize sample_platform sample_parse [person 1 30, person 1 25]
       [plain_column ''id'', plain_column ''age''] empty_options new_service"



section \<open>Smart filter engine\<close>












section \<open>Column manager\<close>

datatype lock_side = LockLeft | LockRight

record DynamicColumn = GridColumn +
  resizable :: "bool option"
  draggable :: "bool option"
  groupable :: "bool option"
  lockable :: "bool option"
  locked :: "lock_side option"

record ColumnGroup =
  group_id :: string
  group_header :: string
  children :: "string list"
  group_expanded :: "bool option"
  level :: "jsnum option"

record LockedColumns =
  locked_left :: "string list"
  locked_right :: "string list"

text \<open>The events that the service emits on its three subjects.\<close>

datatype column_event =
    ColumnResized string jsnum jsnum
  | ColumnReordered string jsnum jsnum
  | ColumnToggled string bool

text \<open>
  The signals of \<open>ColumnManagementService\<close>, and the events emitted so far, oldest
  first. The width record is a map from column identifiers to widths.
\<close>

record ColumnManagementService =
  cm_columns :: "DynamicColumn list"
  cm_columnGroups :: "ColumnGroup list"
  cm_columnOrder :: "string list"
  cm_columnWidths :: "string \<rightharpoonup> jsnum"
  cm_lockedColumns :: LockedColumns
  cm_hiddenColumns :: "string list"
  cm_events :: "column_event list"

definition new_column_service :: ColumnManagementService where
  "new_column_service =
     \<lparr> cm_columns = [], cm_columnGroups = [], cm_columnOrder = [],
       cm_columnWidths = Map.empty,
       cm_lockedColumns = \<lparr> locked_left = [], locked_right = [] \<rparr>,
       cm_hiddenColumns = [], cm_events = [] \<rparr>"

subsection \<open>Derived views\<close>

definition orderedColumns :: "ColumnManagementService \<Rightarrow> DynamicColumn list" where
  "orderedColumns s =
     (let order = cm_columnOrder s; columns = cm_columns s
      in if length order = 0 then columns
         else
           let orderedCols = List.map_filter (\<lambda>i. List.find (\<lambda>c. col_id c = i) columns) order;
               remainingCols = filter (\<lambda>c. col_id c \<notin> set order) columns
           in orderedCols @ remainingCols)"

definition visibleColumns :: "ColumnManagementService \<Rightarrow> DynamicColumn list" where
  "visibleColumns s =
     (let hiddenIds = cm_hiddenColumns s
      in filter (\<lambda>c. col_id c \<notin> set hiddenIds \<and> \<not> flag_set (hidden c)) (orderedColumns s))"

record column_bucket =
  bucket_group :: "ColumnGroup option"
  bucket_columns :: "DynamicColumn list"

definition getGroupedColumns :: "ColumnManagementService \<Rightarrow> column_bucket list" where
  "getGroupedColumns s =
     (let groups = cm_columnGroups s;
          columns = visibleColumns s;
          grouped =
            List.map_filter
              (\<lambda>g. let groupColumns = filter (\<lambda>c. col_id c \<in> set (children g)) columns
                   in if length groupColumns > 0
                      then Some \<lparr> bucket_group = Some g, bucket_columns = groupColumns \<rparr>
                      else None)
              groups;
          groupedColumnIds = concat (map children groups);
          ungroupedColumns = filter (\<lambda>c. col_id c \<notin> set groupedColumnIds) columns
      in if length ungroupedColumns > 0
         then grouped @ [\<lparr> bucket_group = None, bucket_columns = ungroupedColumns \<rparr>]
         else grouped)"

subsection \<open>Operations\<close>

definition width_number :: "width option \<Rightarrow> jsnum option" where
  "width_number w =
     (case w of
        None \<Rightarrow> None
      | Some (WidthNum n) \<Rightarrow> if num_truthy n then Some n else None
      | Some (WidthStr t) \<Rightarrow> if t \<noteq> [] then Some (Fin 150) else None)"

definition cm_initialize ::
  "DynamicColumn list \<Rightarrow> ColumnGroup list option \<Rightarrow> ColumnManagementService \<Rightarrow> ColumnManagementService" where
  "cm_initialize columns groups s =
     s\<lparr>cm_columns := columns,
       cm_columnOrder := map col_id columns,
       cm_columnGroups := (case groups of Some g \<Rightarrow> g | None \<Rightarrow> cm_columnGroups s),
       cm_columnWidths :=
         foldl (\<lambda>widths c. case width_number (width c) of
                             Some n \<Rightarrow> widths(col_id c \<mapsto> n)
                           | None \<Rightarrow> widths)
               Map.empty columns\<rparr>"

definition updateColumnWidth :: "string \<Rightarrow> jsnum \<Rightarrow> ColumnManagementService \<Rightarrow> ColumnManagementService" where
  "updateColumnWidth columnId w s =
     (let oldWidth = (case cm_columnWidths s columnId of
                        Some n \<Rightarrow> if num_truthy n then n else Fin 150
                      | None \<Rightarrow> Fin 150)
      in s\<lparr>cm_columnWidths := (cm_columnWidths s)(columnId \<mapsto> w),
            cm_events := cm_events s @ [ColumnResized columnId w oldWidth]\<rparr>)"

definition removeColumnWidth :: "string \<Rightarrow> ColumnManagementService \<Rightarrow> ColumnManagementService" where
  "removeColumnWidth columnId s = s\<lparr>cm_columnWidths := (cm_columnWidths s)(columnId := None)\<rparr>"

definition hideColumn :: "string \<Rightarrow> ColumnManagementService \<Rightarrow> ColumnManagementService" where
  "hideColumn columnId s =
     (if columnId \<notin> set (cm_hiddenColumns s)
      then s\<lparr>cm_hiddenColumns := cm_hiddenColumns s @ [columnId],
             cm_events := cm_events s @ [ColumnToggled columnId False]\<rparr>
      else s)"

definition showColumn :: "string \<Rightarrow> ColumnManagementService \<Rightarrow> ColumnManagementService" where
  "showColumn columnId s =
     s\<lparr>cm_hiddenColumns := filter (\<lambda>i. i \<noteq> columnId) (cm_hiddenColumns s),
       cm_events := cm_events s @ [ColumnToggled columnId True]\<rparr>"

definition lockColumn :: "string \<Rightarrow> lock_side \<Rightarrow> ColumnManagementService \<Rightarrow> ColumnManagementService" where
  "lockColumn columnId position s =
     (let l = filter (\<lambda>i. i \<noteq> columnId) (locked_left (cm_lockedColumns s));
          r = filter (\<lambda>i. i \<noteq> columnId) (locked_right (cm_lockedColumns s))
      in s\<lparr>cm_lockedColumns :=
             (if position = LockLeft
              then \<lparr> locked_left = l @ [columnId], locked_right = r \<rparr>
              else \<lparr> locked_left = l, locked_right = r @ [columnId] \<rparr>)\<rparr>)"

definition unlockColumn :: "string \<Rightarrow> ColumnManagementService \<Rightarrow> ColumnManagementService" where
  "unlockColumn columnId s =
     s\<lparr>cm_lockedColumns :=
         \<lparr> locked_left = filter (\<lambda>i. i \<noteq> columnId) (locked_left (cm_lockedColumns s)),
           locked_right = filter (\<lambda>i. i \<noteq> columnId) (locked_right (cm_lockedColumns s)) \<rparr>\<rparr>"

definition addColumnGroup :: "ColumnGroup \<Rightarrow> ColumnManagementService \<Rightarrow> ColumnManagementService" where
  "addColumnGroup g s = s\<lparr>cm_columnGroups := cm_columnGroups s @ [g]\<rparr>"

definition removeColumn :: "string \<Rightarrow> ColumnManagementService \<Rightarrow> ColumnManagementService" where
  "removeColumn columnId s =
     (let columns = filter (\<lambda>c. col_id c \<noteq> columnId) (cm_columns s);
          order = filter (\<lambda>i. i \<noteq> columnId) (cm_columnOrder s);
          s1 = s\<lparr>cm_columns := columns, cm_columnOrder := order\<rparr>
      in showColumn columnId (unlockColumn columnId (removeColumnWidth columnId s1)))"

subsection \<open>A sample layout\<close>

definition dynamic_column :: "string \<Rightarrow> jsnum \<Rightarrow> DynamicColumn" where
  "dynamic_column c w =
     \<lparr> col_id = c, header = c, width = Some (WidthNum w), accessor = None,
       sortCompareFn = None, filterFn = None, hidden = None,
       resizable = None, draggable = None, groupable = None, lockable = None,
       locked = None \<rparr>"

definition names_group :: ColumnGroup where
  "names_group =
     \<lparr> group_id = ''names'', group_header = ''Names'', children = [''first'', ''last''],
       group_expanded = None, level = None \<rparr>"

text \<open>Three columns, two of them in a group; \<open>first\<close> is locked left and hidden.\<close>

definition sample_layout :: ColumnManagementService where
  "sample_layout =
     hideColumn ''first''
       (lockColumn ''first'' LockLeft
          (cm_initialize
             [dynamic_column ''first'' (Fin 120), dynamic_column ''last'' (Fin 120),
              dynamic_column ''age'' (Fin 60)]
             (Some [names_group]) new_column_service))"

section \<open>Virtualization window calculator\<close>

text \<open>The five input signals of \<open>VirtualizationService\<close>.\<close>

record VirtualizationInputs =
  containerHeight :: jsnum
  itemHeight :: jsnum
  overscan :: jsnum
  scrollTop :: jsnum
  totalItems :: jsnum

definition visibleItems :: "VirtualizationInputs \<Rightarrow> jsnum" where
  "visibleItems v = js_ceil (js_div (containerHeight v) (itemHeight v))"

definition visibleStartIndex :: "VirtualizationInputs \<Rightarrow> jsnum" where
  "visibleStartIndex v =
     (let startIndex = js_floor (js_div (scrollTop v) (itemHeight v))
      in js_max (Fin 0) (js_sub startIndex (overscan v)))"

definition visibleEndIndex :: "VirtualizationInputs \<Rightarrow> jsnum" where
  "visibleEndIndex v =
     (let endIndex = js_add (js_add (visibleStartIndex v) (visibleItems v))
                            (js_mul (overscan v) (Fin 2))
      in js_min (js_sub (totalItems v) (Fin 1)) endIndex)"

definition totalHeight :: "VirtualizationInputs \<Rightarrow> jsnum" where
  "totalHeight v = js_mul (totalItems v) (itemHeight v)"

definition offsetY :: "VirtualizationInputs \<Rightarrow> jsnum" where
  "offsetY v = js_mul (visibleStartIndex v) (itemHeight v)"

text \<open>The public computed state: the inputs followed by the derived values.\<close>

record VirtualizationState = VirtualizationInputs +
  st_visibleStartIndex :: jsnum
  st_visibleEndIndex :: jsnum
  st_visibleItems :: jsnum
  st_totalHeight :: jsnum
  st_offsetY :: jsnum

definition virtualization_state :: "VirtualizationInputs \<Rightarrow> VirtualizationState" where
  "virtualization_state v =
     \<lparr> containerHeight = containerHeight v, itemHeight = itemHeight v,
       overscan = overscan v, scrollTop = scrollTop v, totalItems = totalItems v,
       st_visibleStartIndex = visibleStartIndex v,
       st_visibleEndIndex = visibleEndIndex v,
       st_visibleItems = visibleItems v,
       st_totalHeight = totalHeight v,
       st_offsetY = offsetY v \<rparr>"

text \<open>The service's initial signals: 400, 40, 5, 0 and 0.\<close>

definition virtualization_init :: VirtualizationInputs where
  "virtualization_init =
     \<lparr> containerHeight = Fin 400, itemHeight = Fin 40, overscan = Fin 5,
       scrollTop = Fin 0, totalItems = Fin 0 \<rparr>"

definition setTotalItems :: "jsnum \<Rightarrow> VirtualizationInputs \<Rightarrow> VirtualizationInputs" where
  "setTotalItems n v = v\<lparr>totalItems := n\<rparr>"

definition handleScroll :: "jsnum \<Rightarrow> VirtualizationInputs \<Rightarrow> VirtualizationInputs" where
  "handleScroll y v = v\<lparr>scrollTop := y\<rparr>"

text \<open>
  The scenario of the specification: the initial signals with one hundred items.
\<close>

definition virtualization_scenario :: VirtualizationInputs where
  "virtualization_scenario = setTotalItems (Fin 100) virtualization_init"

section \<open>Properties of the grid state engine\<close>

lemmas scenario_defs =
  scenario_sorted_def scenario_filtered_def scenario_service_def initialize_def sortBy_def
  setFilter_def new_service_def empty_options_def scenario_data_def person_def
  plain_column_def or_default_def flag_set_def string_set_def num_truthy_def

lemmas pipeline_defs =
  filtered_sorted_def applyFilters_def applySorting_def
  rows_def make_row_def getRowId_def nullish_coalesce_def nullish_def getCellValue_def
  get_property_def defaultSort_def defaultFilter_def passes_filter_def js_sub_def js_gt_def
  applyPagination_def js_slice_def slice_bound_def truncate_rat_def

lemma processedRows_throws:
  "processedRows env st
     = (case filtered_sorted env st of Inl e \<Rightarrow> Inl e | Inr rs \<Rightarrow> Inl SignalWriteInComputed)"
  by (simp add: processedRows_def updatePaginationTotals_def signal_update_def
      split: sum.splits)

text \<open>
  C1: for the records \<open>{id:1,age:30}\<close>, \<open>{id:2,age:25}\<close>, \<open>{id:3,age:25}\<close> with the
  columns \<open>id\<close> and \<open>age\<close>, sorting by age ascending and then by id ascending
  should give the processed rows 2, 3, 1, and the filter \<open>age greaterThan 25\<close> should
  leave the record with id 1, with \<open>totalItems = 1\<close> and \<open>totalPages = 1\<close>. The
  filter and sort stages compute these rows, and the update function computes these
  totals; but \<open>processedRows\<close> writes the totals inside its \<open>computed\<close>, the write
  throws, no rows are returned and both totals stay 0.
\<close>

theorem scenario_processedRows_throws:
  "map_sum id (map data) (filtered_sorted env (scenario_sorted env parse))
     = Inr [person 2 25, person 3 25, person 1 30]
   \<and> map_sum id (map data) (filtered_sorted env (scenario_filtered env parse))
     = Inr [person 1 30]
   \<and> pagination_totalItems (pagination_totals 1 (s_pagination (scenario_filtered env parse)))
     = Fin 1
   \<and> totalPages (pagination_totals 1 (s_pagination (scenario_filtered env parse))) = Fin 1
   \<and> processedRows env (scenario_sorted env parse) = Inl SignalWriteInComputed
   \<and> processedRows env (scenario_filtered env parse) = Inl SignalWriteInComputed
   \<and> pagination_totalItems (s_pagination (scenario_filtered env parse)) = Fin 0
   \<and> totalPages (s_pagination (scenario_filtered env parse)) = Fin 0"
proof -
  have sorted: "map_sum id (map data) (filtered_sorted env (scenario_sorted env parse))
      = Inr [person 2 25, person 3 25, person 1 30]"
    by (simp add: scenario_defs pipeline_defs Let_def upt_rec)
  have filtered: "map_sum id (map data) (filtered_sorted env (scenario_filtered env parse))
      = Inr [person 1 30]"
    by (simp add: scenario_defs pipeline_defs Let_def upt_rec)
  have totals: "pagination_totals 1 (s_pagination (scenario_filtered env parse))
      = (s_pagination (scenario_filtered env parse))
          \<lparr>pagination_totalItems := Fin 1, totalPages := Fin 1\<rparr>"
    by (simp add: scenario_defs pagination_totals_def Let_def ceiling_eq_iff)
  have before: "pagination_totalItems (s_pagination (scenario_filtered env parse)) = Fin 0"
    "totalPages (s_pagination (scenario_filtered env parse)) = Fin 0"
    by (simp_all add: scenario_defs Let_def)
  have thrown: "processedRows env (scenario_sorted env parse) = Inl SignalWriteInComputed"
    "processedRows env (scenario_filtered env parse) = Inl SignalWriteInComputed"
    using sorted filtered by (auto simp add: processedRows_throws split: sum.splits)
  show ?thesis using sorted filtered totals before thrown by simp
qed

subsection \<open>Null and undefined cells\<close>

lemma every_err_True:
  "every_err p xs = Inr True \<Longrightarrow> x \<in> set xs \<Longrightarrow> p x = Inr True"
  by (induction xs) (auto split: sum.splits if_splits)

lemma filter_err_member:
  "filter_err p xs = Inr ys \<Longrightarrow> x \<in> set ys \<Longrightarrow> p x = Inr True"
  by (induction xs arbitrary: ys) (auto split: sum.splits if_splits)

text \<open>
  C10: the default filter predicate is false on a \<open>null\<close> or \<open>undefined\<close> cell value,
  whatever the operator and the filter value. Hence a row whose cell in a filtered
  column is \<open>null\<close> or \<open>undefined\<close>, the column having no \<open>filterFn\<close>, fails that
  filter and is in no result of \<open>applyFilters\<close>.
\<close>

theorem nullish_cell_excluded:
  assumes "nullish v"
    and "f \<in> set (s_filters st)"
    and "List.find (\<lambda>c. col_id c = filter_columnId f) (s_columns st) = Some column"
    and "filterFn column = None"
    and "getCellValue (data row) column = Inr v"
  shows "(\<forall>filterValue opr. \<not> defaultFilter env v filterValue opr)
     \<and> passes_filter env (s_columns st) row f = Inr False
     \<and> (case applyFilters env st rs of Inl e \<Rightarrow> True | Inr out \<Rightarrow> row \<notin> set out)"
proof -
  have never: "\<forall>filterValue opr. \<not> defaultFilter env v filterValue opr"
    using assms(1) by (simp add: defaultFilter_def)
  have fails: "passes_filter env (s_columns st) row f = Inr False"
    using assms never by (simp add: passes_filter_def)
  have absent: "row \<notin> set out" if "applyFilters env st rs = Inr out" for out
  proof
    assume "row \<in> set out"
    moreover have "s_filters st \<noteq> []" using assms(2) by auto
    ultimately have
      "every_err (passes_filter env (s_columns st) row) (s_filters st) = Inr True"
      using that
        filter_err_member
          [of "\<lambda>row. every_err (passes_filter env (s_columns st) row) (s_filters st)" rs out row]
      by (simp add: applyFilters_def Let_def)
    then have "passes_filter env (s_columns st) row f = Inr True"
      using assms(2) every_err_True by fastforce
    with fails show False by simp
  qed
  show ?thesis using never fails absent by (auto split: sum.splits)
qed

lemmas ageless_defs =
  ageless_service_def ageless_def sample_platform_def initialize_def setFilter_def
  new_service_def empty_options_def person_def plain_column_def or_default_def
  flag_set_def string_set_def num_truthy_def

theorem nullish_cell_excluded_witness:
  "nullish JNull
   \<and> \<lparr> filter_columnId = ''age'', filter_value = JNum (Fin 25), operator = Some ''lessThan'' \<rparr>
       \<in> set (s_filters ageless_service)
   \<and> List.find (\<lambda>c. col_id c = ''age'') (s_columns ageless_service) = Some (plain_column ''age'')
   \<and> filterFn (plain_column ''age'') = None
   \<and> getCellValue (data (rows ageless_service ! 1)) (plain_column ''age'') = Inr JNull
   \<and> applyFilters sample_platform ageless_service (rows ageless_service)
       = Inr [rows ageless_service ! 0]
   \<and> rows ageless_service ! 1 \<notin> set [rows ageless_service ! 0]"
proof -
  let ?f = "\<lparr> filter_columnId = ''age'', filter_value = JNum (Fin 25),
               operator = Some ''lessThan'' \<rparr>"
  have h1: "nullish JNull" by (simp add: nullish_def)
  have h2: "?f \<in> set (s_filters ageless_service)"
    by (simp add: ageless_defs Let_def)
  have h3: "List.find (\<lambda>c. col_id c = filter_columnId ?f) (s_columns ageless_service)
              = Some (plain_column ''age'')"
    by (simp add: ageless_defs Let_def)
  have h4: "filterFn (plain_column ''age'') = None" by (simp add: plain_column_def)
  have h5: "getCellValue (data (rows ageless_service ! 1)) (plain_column ''age'') = Inr JNull"
    by (simp add: ageless_defs pipeline_defs Let_def upt_rec)
  have result: "applyFilters sample_platform ageless_service (rows ageless_service)
                  = Inr [rows ageless_service ! 0]"
    by (simp add: ageless_defs pipeline_defs js_Number.simps Let_def upt_rec)
  from nullish_cell_excluded [OF h1 h2 h3 h4 h5, of sample_platform "rows ageless_service"]
  have "rows ageless_service ! 1 \<notin> set [rows ageless_service ! 0]"
    by (simp add: result)
  with h1 h2 h3 h4 h5 result show ?thesis by simp
qed

subsection \<open>Pagination\<close>




lemmas paged_defs =
  paged_service_def sample_platform_def initialize_def new_service_def empty_options_def
  scenario_data_def person_def plain_column_def or_default_def flag_set_def string_set_def
  num_truthy_def




subsection \<open>Row identity\<close>

lemma getRowId_rule:
  "getRowId item i = (case first_defined_id item of Some v \<Rightarrow> v | None \<Rightarrow> JNum (Fin (of_nat i)))"
  by (simp add: getRowId_def first_defined_id_def nullish_coalesce_def)

lemma length_rows: "length (rows st) = length (s_data st)"
  by (simp add: rows_def)

lemma row_id_nth:
  "i < length (s_data st) \<Longrightarrow> row_id (rows st ! i) = getRowId (s_data st ! i) i"
  by (simp add: rows_def make_row_def)

lemma ids_no_field:
  assumes "list_all (\<lambda>item. first_defined_id item = None) (s_data st)"
  shows "map row_id (rows st) = map (\<lambda>i. JNum (Fin (of_nat i))) [0..<length (s_data st)]"
proof (rule nth_equalityI)
  show "length (map row_id (rows st)) = length (map (\<lambda>i. JNum (Fin (of_nat i))) [0..<length (s_data st)])"
    by (simp add: length_rows)
next
  fix i assume "i < length (map row_id (rows st))"
  then have i: "i < length (s_data st)" by (simp add: length_rows)
  then have "first_defined_id (s_data st ! i) = None"
    using assms by (simp add: list_all_length)
  then show "map row_id (rows st) ! i = map (\<lambda>i. JNum (Fin (of_nat i))) [0..<length (s_data st)] ! i"
    using i by (simp add: length_rows row_id_nth getRowId_rule)
qed

lemma ids_all_fields:
  assumes "list_all (\<lambda>item. first_defined_id item \<noteq> None) (s_data st)"
  shows "map Some (map row_id (rows st)) = map first_defined_id (s_data st)"
proof (rule nth_equalityI)
  show "length (map Some (map row_id (rows st))) = length (map first_defined_id (s_data st))"
    by (simp add: length_rows)
next
  fix i assume "i < length (map Some (map row_id (rows st)))"
  then have i: "i < length (s_data st)" by (simp add: length_rows)
  then have "first_defined_id (s_data st ! i) \<noteq> None"
    using assms by (simp add: list_all_length)
  then show "map Some (map row_id (rows st)) ! i = map first_defined_id (s_data st) ! i"
    using i by (auto simp: length_rows row_id_nth getRowId_rule)
qed

text \<open>
  C5, as stated, makes the derived identifiers of every record collection pairwise
  distinct. Two records with the same \<open>id\<close> field get the same identifier.
\<close>

theorem twins_share_row_id:
  "map row_id (rows twins_service) = [JNum (Fin 1), JNum (Fin 1)]
   \<and> \<not> distinct (map row_id (rows twins_service))"
  by (simp add: twins_service_def initialize_def Let_def new_service_def empty_options_def
      person_def rows_def make_row_def getRowId_def nullish_coalesce_def nullish_def upt_rec
      flag_set_def)

text \<open>
  C5 (amended): each identifier is the first of the record fields \<open>id\<close>, \<open>_id\<close>,
  \<open>uuid\<close> that is neither \<open>null\<close> nor \<open>undefined\<close>, and the positional index when
  there is none. Within one recomputation the identifiers are pairwise distinct when
  no record has such a field (they are then the indices), and, when every record has
  one, exactly when these field values are pairwise distinct.
\<close>

theorem row_ids_distinct:
  "(list_all (\<lambda>item. first_defined_id item = None) (s_data st) \<longrightarrow>
       map row_id (rows st) = map (\<lambda>i. JNum (Fin (of_nat i))) [0..<length (s_data st)]
       \<and> distinct (map row_id (rows st)))
   \<and> (list_all (\<lambda>item. first_defined_id item \<noteq> None) (s_data st) \<longrightarrow>
       (distinct (map row_id (rows st)) \<longleftrightarrow> distinct (map first_defined_id (s_data st))))
   \<and> getRowId item i
       = (case first_defined_id item of Some v \<Rightarrow> v | None \<Rightarrow> JNum (Fin (of_nat i)))"
proof -
  have inj: "inj_on (\<lambda>i. JNum (Fin (of_nat i))) A" for A :: "nat set"
    by (simp add: inj_on_def)
  have indices: "distinct (map (\<lambda>i. JNum (Fin (of_nat i))) [0..<length (s_data st)])"
    by (simp add: distinct_map inj)
  have fields: "distinct (map row_id (rows st)) \<longleftrightarrow> distinct (map first_defined_id (s_data st))"
    if "list_all (\<lambda>item. first_defined_id item \<noteq> None) (s_data st)"
  proof -
    have "distinct (map Some (map row_id (rows st))) = distinct (map row_id (rows st))"
      by (simp add: distinct_map del: map_map)
    then show ?thesis using ids_all_fields[OF that] by simp
  qed
  show ?thesis using indices fields ids_no_field getRowId_rule by auto
qed

theorem row_ids_distinct_witness:
  "list_all (\<lambda>item. first_defined_id item \<noteq> None) (s_data paged_service)
   \<and> distinct (map first_defined_id (s_data paged_service))
   \<and> distinct (map row_id (rows paged_service))
   \<and> getRowId (person 2 25) 1 = JNum (Fin 2)
   \<and> getRowId JNull 1 = JNum (Fin 1)"
proof -
  have vals: "map first_defined_id (s_data paged_service)
      = [Some (JNum (Fin 1)), Some (JNum (Fin 2)), Some (JNum (Fin 3))]"
    by (simp add: paged_defs Let_def first_defined_id_def nullish_def)
  have h: "list_all (\<lambda>item. first_defined_id item \<noteq> None) (s_data paged_service)"
    by (simp add: paged_defs Let_def first_defined_id_def nullish_def)
  have d: "distinct (map first_defined_id (s_data paged_service))"
    unfolding vals by simp
  have "first_defined_id (person 2 25) = Some (JNum (Fin 2))" "first_defined_id JNull = None"
    by (simp_all add: person_def first_defined_id_def nullish_def)
  with row_ids_distinct [of paged_service "person 2 25" 1]
    row_ids_distinct [of paged_service JNull 1] h d
  show ?thesis by simp
qed

subsection \<open>Selection\<close>











subsection \<open>Importing a snapshot\<close>

text \<open>
  C9: when the input string is not valid JSON, that is when \<open>JSON.parse\<close> throws,
  \<open>importState\<close> leaves the whole service as it was: the exception ends the
  \<open>try\<close> block before any signal is written.
\<close>

theorem importState_malformed:
  assumes "parse stateJson = Inl e"
  shows "importState parse stateJson st = st
       \<and> importState_try parse stateJson st = (st, Some e)"
  using assms by (simp add: importState_def importState_try_def)

theorem importState_malformed_witness:
  "sample_parse ''{sort:'' = Inl SyntaxError
   \<and> importState sample_parse ''{sort:'' paged_service = paged_service"
proof -
  have h: "sample_parse ''{sort:'' = Inl SyntaxError" by (simp add: sample_parse_def)
  from importState_malformed [of sample_parse "''{sort:''" SyntaxError paged_service] h
  show ?thesis by simp
qed

section \<open>Properties of the smart filter engine\<close>










section \<open>Properties of the column manager\<close>

lemma set_map_filter: "set (List.map_filter f xs) = {y. \<exists>x \<in> set xs. f x = Some y}"
  by (induction xs) (auto split: option.splits)

lemma orderedColumns_subset: "set (orderedColumns s) \<subseteq> set (cm_columns s)"
  by (auto simp add: orderedColumns_def Let_def set_map_filter dest: find_Some_iff[THEN iffD1] split: if_splits)

lemma visibleColumns_subset: "set (visibleColumns s) \<subseteq> set (cm_columns s)"
  using orderedColumns_subset by (auto simp add: visibleColumns_def Let_def)

lemma bucket_columns_visible:
  "b \<in> set (getGroupedColumns s) \<Longrightarrow> set (bucket_columns b) \<subseteq> set (visibleColumns s)"
  by (auto simp add: getGroupedColumns_def Let_def set_map_filter split: if_splits)

lemmas layout_defs =
  removeColumn_def showColumn_def unlockColumn_def removeColumnWidth_def sample_layout_def
  hideColumn_def lockColumn_def cm_initialize_def new_column_service_def names_group_def
  dynamic_column_def width_number_def num_truthy_def

text \<open>
  What \<open>removeColumn\<close> purges: the identifier is gone from the column list, the order
  list, the width map, both lock lists and the hidden list, and from the columns of
  every bucket of \<open>getGroupedColumns\<close>. The column groups are not touched.
\<close>

lemma removeColumn_purges:
  "columnId \<notin> col_id ` set (cm_columns (removeColumn columnId s))
   \<and> columnId \<notin> set (cm_columnOrder (removeColumn columnId s))
   \<and> cm_columnWidths (removeColumn columnId s) columnId = None
   \<and> columnId \<notin> set (locked_left (cm_lockedColumns (removeColumn columnId s)))
   \<and> columnId \<notin> set (locked_right (cm_lockedColumns (removeColumn columnId s)))
   \<and> columnId \<notin> set (cm_hiddenColumns (removeColumn columnId s))
   \<and> list_all (\<lambda>b. columnId \<notin> col_id ` set (bucket_columns b))
        (getGroupedColumns (removeColumn columnId s))
   \<and> cm_columnGroups (removeColumn columnId s) = cm_columnGroups s"
proof -
  have cols: "columnId \<notin> col_id ` set (cm_columns (removeColumn columnId s))"
    by (auto simp add: removeColumn_def showColumn_def unlockColumn_def removeColumnWidth_def
        Let_def)
  have "columnId \<notin> col_id ` set (bucket_columns b)"
    if "b \<in> set (getGroupedColumns (removeColumn columnId s))" for b
    using bucket_columns_visible[OF that] visibleColumns_subset[of "removeColumn columnId s"] cols
    by blast
  then have buckets: "list_all (\<lambda>b. columnId \<notin> col_id ` set (bucket_columns b))
      (getGroupedColumns (removeColumn columnId s))"
    by (simp add: list_all_iff)
  show ?thesis using cols buckets
    by (simp add: removeColumn_def showColumn_def unlockColumn_def removeColumnWidth_def Let_def)
qed

text \<open>
  C8: after \<open>removeColumn\<close> the identifier should appear nowhere in the layout state,
  the children list of every column group included. \<open>removeColumn\<close> cleans up the
  widths, the locks and the hidden list, but not the groups: in the sample layout the
  column \<open>first\<close> is a child of the group \<open>names\<close>, and after its removal it is
  gone from the order list, the lock list, the hidden list and the width map, and
  still a child of that group.
\<close>

theorem removed_column_stays_in_group:
  "''first'' \<in> set (children names_group)
   \<and> cm_columnGroups sample_layout = [names_group]
   \<and> ''first'' \<in> set (cm_columnOrder sample_layout)
   \<and> cm_columnOrder (removeColumn ''first'' sample_layout) = [''last'', ''age'']
   \<and> locked_left (cm_lockedColumns (removeColumn ''first'' sample_layout)) = []
   \<and> cm_hiddenColumns (removeColumn ''first'' sample_layout) = []
   \<and> cm_columnWidths (removeColumn ''first'' sample_layout) ''first'' = None
   \<and> cm_columnGroups (removeColumn ''first'' sample_layout) = [names_group]
   \<and> ''first'' \<in> set (concat (map children (cm_columnGroups (removeColumn ''first'' sample_layout))))"
  by (simp add: layout_defs Let_def)

section \<open>Properties of the virtualization window\<close>

text \<open>
  C6, as the specification states it, expects \<open>visibleEndIndex = 19\<close> for
  \<open>containerHeight = 400\<close>, \<open>itemHeight = 40\<close>, \<open>overscan = 5\<close>,
  \<open>scrollTop = 0\<close>, \<open>totalItems = 100\<close>. The service computes
  \<open>min (100 - 1) (0 + 10 + 2 * 5) = 20\<close>, so the expected value is not the computed one.
\<close>

theorem virtualization_scenario_end_not_19:
  "st_visibleEndIndex (virtualization_state virtualization_scenario) \<noteq> Fin 19"
  by (simp add: virtualization_scenario_def setTotalItems_def virtualization_init_def
      virtualization_state_def visibleEndIndex_def visibleStartIndex_def visibleItems_def
      js_sub_def js_max_def js_min_def)

text \<open>
  C6 (amended): for \<open>containerHeight = 400\<close>, \<open>itemHeight = 40\<close>, \<open>overscan = 5\<close>,
  \<open>scrollTop = 0\<close>, \<open>totalItems = 100\<close> the derived state is
  \<open>visibleStartIndex = 0\<close>, \<open>visibleEndIndex = 20\<close>, \<open>visibleItems = 10\<close>,
  \<open>totalHeight = 4000\<close> and \<open>offsetY = 0\<close>.
\<close>

theorem virtualization_scenario_state:
  "virtualization_state virtualization_scenario =
     \<lparr> containerHeight = Fin 400, itemHeight = Fin 40, overscan = Fin 5,
       scrollTop = Fin 0, totalItems = Fin 100,
       st_visibleStartIndex = Fin 0, st_visibleEndIndex = Fin 20,
       st_visibleItems = Fin 10, st_totalHeight = Fin 4000, st_offsetY = Fin 0 \<rparr>"
  by (simp add: virtualization_scenario_def setTotalItems_def virtualization_init_def
      virtualization_state_def visibleEndIndex_def visibleStartIndex_def visibleItems_def
      totalHeight_def offsetY_def js_sub_def js_max_def js_min_def)

text \<open>
  C7, as stated, demands \<open>visibleStartIndex \<le> visibleEndIndex\<close> for all valid inputs,
  the empty list included. In the service's initial state (no items) the end index is
  \<open>-1\<close> and lies below the start index \<open>0\<close>.
\<close>

theorem virtualization_empty_end_below_start:
  "visibleStartIndex virtualization_init = Fin 0
   \<and> visibleEndIndex virtualization_init = Fin (- 1)
   \<and> js_lt (visibleEndIndex virtualization_init) (visibleStartIndex virtualization_init)"
  by (simp add: virtualization_init_def visibleEndIndex_def visibleStartIndex_def
      visibleItems_def js_sub_def js_max_def js_min_def)

text \<open>
  C7 (amended): for all valid inputs (finite numbers with \<open>scrollTop \<ge> 0\<close>,
  \<open>itemHeight > 0\<close>, \<open>containerHeight > 0\<close>, \<open>overscan \<ge> 0\<close>, \<open>totalItems \<ge> 0\<close>)
  the three derived values are finite and satisfy
  \<open>0 \<le> visibleStartIndex\<close> and
  \<open>visibleEndIndex \<le> totalItems - 1 \<le> max (totalItems - 1) 0\<close>;
  \<open>visibleStartIndex \<le> visibleEndIndex\<close> holds exactly when
  \<open>visibleStartIndex \<le> totalItems - 1\<close>; and
  \<open>visibleEndIndex - visibleStartIndex + 1 \<ge> visibleItems\<close> holds exactly when
  \<open>totalItems \<ge> visibleStartIndex + visibleItems\<close>.
\<close>

theorem virtualization_bounds:
  assumes "scrollTop v = Fin y" and "itemHeight v = Fin h" and "containerHeight v = Fin c"
    and "overscan v = Fin k" and "totalItems v = Fin t"
    and "0 \<le> y" and "0 < h" and "0 < c" and "0 \<le> k" and "0 \<le> t"
  shows "\<exists>s e n. visibleStartIndex v = Fin s \<and> visibleEndIndex v = Fin e
           \<and> visibleItems v = Fin n
           \<and> 0 \<le> s \<and> e \<le> t - 1 \<and> e \<le> max (t - 1) 0
           \<and> (s \<le> e \<longleftrightarrow> s \<le> t - 1)
           \<and> (n \<le> e - s + 1 \<longleftrightarrow> s + n \<le> t)"
proof -
  define n where "n = (of_int \<lceil>c / h\<rceil> :: rat)"
  define s where "s = max 0 (of_int \<lfloor>y / h\<rfloor> - k)"
  define e where "e = min (t - 1) (s + n + k * 2)"
  have n: "visibleItems v = Fin n"
    using assms by (simp add: visibleItems_def n_def)
  have s: "visibleStartIndex v = Fin s"
    using assms by (simp add: visibleStartIndex_def s_def js_sub_def js_max_def max_def)
  have e: "visibleEndIndex v = Fin e"
    using assms n s by (simp add: visibleEndIndex_def e_def js_sub_def js_min_def min_def)
  have "0 < c / h" using assms by simp
  then have n0: "0 \<le> n"
    unfolding n_def
    by (metis ceiling_le_zero linorder_not_less of_int_0_le_iff order_less_imp_le)
  have s0: "0 \<le> s" by (simp add: s_def)
  have "0 \<le> n + k * 2" using n0 assms by simp
  then have ordered: "s \<le> e \<longleftrightarrow> s \<le> t - 1" unfolding e_def by auto
  have window: "n \<le> e - s + 1 \<longleftrightarrow> s + n \<le> t"
    using \<open>0 \<le> k\<close> unfolding e_def min_def by auto
  have upper: "e \<le> t - 1" unfolding e_def by simp
  show ?thesis using n s e s0 ordered window upper by auto
qed

theorem virtualization_bounds_witness:
  "scrollTop virtualization_scenario = Fin 0
   \<and> itemHeight virtualization_scenario = Fin 40
   \<and> containerHeight virtualization_scenario = Fin 400
   \<and> overscan virtualization_scenario = Fin 5
   \<and> totalItems virtualization_scenario = Fin 100
   \<and> (\<exists>s e n. visibleStartIndex virtualization_scenario = Fin s
         \<and> visibleEndIndex virtualization_scenario = Fin e
         \<and> visibleItems virtualization_scenario = Fin n
         \<and> 0 \<le> s \<and> e \<le> 100 - 1 \<and> s \<le> e \<and> n \<le> e - s + 1)"
proof -
  have inputs: "scrollTop virtualization_scenario = Fin 0"
    "itemHeight virtualization_scenario = Fin 40"
    "containerHeight virtualization_scenario = Fin 400"
    "overscan virtualization_scenario = Fin 5"
    "totalItems virtualization_scenario = Fin 100"
    by (simp_all add: virtualization_scenario_def setTotalItems_def virtualization_init_def)
  from virtualization_bounds [OF inputs]
  obtain s e n where r: "visibleStartIndex virtualization_scenario = Fin s"
    "visibleEndIndex virtualization_scenario = Fin e"
    "visibleItems virtualization_scenario = Fin n"
    "0 \<le> s" "e \<le> 100 - 1" "s \<le> e \<longleftrightarrow> s \<le> 100 - 1"
    "n \<le> e - s + 1 \<longleftrightarrow> s + n \<le> 100"
    by auto
  have "s = 0"
    using r(1) by (simp add: inputs visibleStartIndex_def js_sub_def js_max_def)
  moreover have "n = 10"
    using r(3) by (simp add: inputs visibleItems_def)
  ultimately have "s \<le> e" and "n \<le> e - s + 1" using r(6,7) by simp_all
  with inputs r show ?thesis by blast
qed

end
